theory Spec2Isabelle
  imports Complex_Main "HOL-Library.AList"
begin

section \<open>Engine values\<close>

text \<open>
  An \<open>FName\<close> is compared by its index in the engine's name table; \<open>NAME_None\<close> is
  entry 0. A \<open>UObject*\<close> (button, content widget, button group, switcher, widget class)
  is the identity of the object, or \<open>None\<close> for \<open>nullptr\<close>.
\<close>

type_synonym FName = nat

definition NAME_None :: FName where
  "NAME_None = 0"

type_synonym UObject = nat

definition IsValid :: "'a option \<Rightarrow> bool" where
  "IsValid p = (p \<noteq> None)"

text \<open>Dereferencing \<open>nullptr\<close> ends the program; it is the one failure of the model.\<close>

datatype crash = NullDereference

section \<open>The tab list (CommonTabListWidgetBase.cpp)\<close>

subsection \<open>Data\<close>

text \<open>
  \<open>FCommonRegisteredTabInfo\<close>, with the three fields the file reads and writes.
  \<open>TabIndex\<close> is an \<open>int32\<close>; it only ever holds \<open>RegisteredTabsByID.Num()\<close>, so no
  arithmetic on it can wrap.
\<close>

record FCommonRegisteredTabInfo =
  TabIndex :: int
  TabButton :: "UObject option"
  ContentInstance :: "UObject option"

text \<open>
  What the widget does to its collaborators (the button group, the buttons, the linked
  switcher, the action router) and the callbacks and delegates it raises, in program
  order.
\<close>

datatype Call =
    Button_SetIsSelectable UObject bool
  | Button_SetIsToggleable UObject bool
  | Button_RemoveFromParent UObject
  | Group_SetSelectionRequired bool
  | Group_AddWidget UObject
  | Group_RemoveWidget UObject
  | Group_RemoveAll
  | Switcher_SetActiveWidget UObject
  | RegisterUIActionBinding_NextTab
  | RegisterUIActionBinding_PrevTab
  | Unregister_NextTabActionHandle
  | Unregister_PrevTabActionHandle
  | Call_HandleTabCreation FName "UObject option"
  | Broadcast_OnTabButtonCreation FName "UObject option"
  | Call_HandleTabRemoval FName "UObject option"
  | Broadcast_OnTabButtonRemoval FName "UObject option"
  | Broadcast_OnTabSelected FName
  | Call_HandlePreLinkedSwitcherChanged_BP
  | Call_HandlePostLinkedSwitcherChanged_BP
  | Super_NativeOnInitialized
  | Super_NativeConstruct
  | Super_NativeDestruct

text \<open>
  The members of \<open>UCommonTabListWidgetBase\<close>. \<open>RegisteredTabsByID\<close> is a \<open>TMap\<close>: an
  association list with distinct keys, in iteration order (\<open>Find\<close> is \<open>map_of\<close>,
  \<open>Remove\<close> is \<open>AList.delete\<close>, \<open>Num\<close> is \<open>length\<close>, \<open>Add\<close> is
  \<open>AList.update\<close>). \<open>AList.update\<close> puts a new key last; the engine's map puts it last
  as long as nothing was removed and may reuse the place of a removed entry otherwise.
  The statements about \<open>RegisterTab\<close> below are about the entries and their number, not
  about the place of the new entry. \<open>Calls\<close> is the log of outgoing calls.
\<close>

record UCommonTabListWidgetBase =
  bAutoListenForInput :: bool
  TabButtonGroup :: "UObject option"
  bIsListeningForInput :: bool
  RegisteredTabsByID :: "(FName \<times> FCommonRegisteredTabInfo) list"
  ActiveTabID :: FName
  LinkedSwitcher :: "UObject option"
  Calls :: "Call list"

text \<open>
  What the engine answers during one call into the widget: the result of
  \<open>CreateWidget\<close> for a button class, the object \<open>NewObject\<close> returns, the result of
  \<open>GetUISubsystem\<close>, and the \<open>OnSelectedButtonBaseChanged\<close> events (each with the
  button it reports) that the button group raises while a button is added to it or
  removed from it. The group's code is not part of this file, so its reaction is a
  parameter; the widget listens to that delegate with \<open>HandleTabButtonSelected\<close>.
\<close>

record Engine =
  CreateWidget :: "UObject option \<Rightarrow> UObject option"
  NewObject :: UObject
  GetUISubsystem :: "UObject option"
  AddWidget_selects :: "UObject \<Rightarrow> UObject option list"
  RemoveWidget_selects :: "UObject \<Rightarrow> UObject option list"

subsection \<open>Operations\<close>

definition emit :: "Call list \<Rightarrow> UCommonTabListWidgetBase \<Rightarrow> UCommonTabListWidgetBase" where
  "emit cs st = st\<lparr>Calls := Calls st @ cs\<rparr>"

definition Contains :: "(FName \<times> FCommonRegisteredTabInfo) list \<Rightarrow> FName \<Rightarrow> bool" where
  "Contains m k = IsValid (map_of m k)"

text \<open>The constructor's member initialisers.\<close>

definition UCommonTabListWidgetBase_ctor :: UCommonTabListWidgetBase where
  "UCommonTabListWidgetBase_ctor =
     \<lparr>bAutoListenForInput = False, TabButtonGroup = None, bIsListeningForInput = False,
      RegisteredTabsByID = [], ActiveTabID = NAME_None, LinkedSwitcher = None, Calls = []\<rparr>"

text \<open>
  \<open>HandleTabButtonSelected\<close>: the loop over the registry has no \<open>break\<close>, so every tab
  whose button is the selected one is handled, the last one staying in \<open>ActiveTabID\<close>.
  An \<open>ensureMsgf\<close> evaluates to its condition.
\<close>

fun HandleTabButtonSelected_loop ::
  "UObject option \<Rightarrow> (FName \<times> FCommonRegisteredTabInfo) list \<Rightarrow>
   UCommonTabListWidgetBase \<Rightarrow> UCommonTabListWidgetBase" where
  "HandleTabButtonSelected_loop SelectedTabButton [] st = st"
| "HandleTabButtonSelected_loop SelectedTabButton ((Key, TabInfo) # rest) st =
     HandleTabButtonSelected_loop SelectedTabButton rest
       (if TabButton TabInfo = SelectedTabButton then
          (let st1 = st\<lparr>ActiveTabID := Key\<rparr>;
               st2 = (if IsValid (ContentInstance TabInfo) \<or> IsValid (LinkedSwitcher st1) then
                        (case (ContentInstance TabInfo, LinkedSwitcher st1) of
                           (Some Content, Some Switcher) \<Rightarrow>
                             emit [Switcher_SetActiveWidget Content] st1
                         | _ \<Rightarrow> st1)
                      else st1)
           in emit [Broadcast_OnTabSelected Key] st2)
        else st)"

definition HandleTabButtonSelected ::
  "UCommonTabListWidgetBase \<Rightarrow> UObject option \<Rightarrow> UCommonTabListWidgetBase" where
  "HandleTabButtonSelected st SelectedTabButton =
     HandleTabButtonSelected_loop SelectedTabButton (RegisteredTabsByID st) st"

text \<open>
  \<open>RegisterTab\<close>. The two \<open>ensure\<close>s clear \<open>AreParametersValid\<close>; a failed
  \<open>CreateWidget\<close> is the third way out. \<open>AddWidget\<close> runs only when the group exists,
  and the selection events it raises reach \<open>HandleTabButtonSelected\<close> after the new tab
  is in the registry.
\<close>

definition RegisterTab ::
  "Engine \<Rightarrow> UCommonTabListWidgetBase \<Rightarrow> FName \<Rightarrow> UObject option \<Rightarrow> UObject option \<Rightarrow>
   bool \<times> UCommonTabListWidgetBase" where
  "RegisterTab E st TabNameID ButtonWidgetType ContentWidget =
     (let AreParametersValid =
            (\<not> Contains (RegisteredTabsByID st) TabNameID \<and> IsValid ButtonWidgetType)
      in if \<not> AreParametersValid then (False, st)
         else
           (case CreateWidget E ButtonWidgetType of
              None \<Rightarrow> (False, st)
            | Some NewTabButton \<Rightarrow>
                (let NewTabInfo =
                       \<lparr>TabIndex = int (length (RegisteredTabsByID st)),
                        TabButton = Some NewTabButton,
                        ContentInstance = ContentWidget\<rparr>;
                     st1 = st\<lparr>RegisteredTabsByID :=
                              AList.update TabNameID NewTabInfo (RegisteredTabsByID st)\<rparr>;
                     st2 = emit [Button_SetIsSelectable NewTabButton True,
                                 Button_SetIsToggleable NewTabButton False] st1;
                     st3 = (if IsValid (TabButtonGroup st2) then
                              foldl HandleTabButtonSelected
                                (emit [Group_AddWidget NewTabButton] st2)
                                (AddWidget_selects E NewTabButton)
                            else st2)
                 in (True,
                     emit [Call_HandleTabCreation TabNameID (TabButton NewTabInfo),
                           Broadcast_OnTabButtonCreation TabNameID (TabButton NewTabInfo)]
                       st3))))"

text \<open>
  \<open>RemoveTab\<close>. \<open>TabButtonGroup->RemoveWidget\<close> dereferences the group without a check;
  the selection events it raises are handled while the tab is still registered.
\<close>

definition RemoveTab ::
  "Engine \<Rightarrow> UCommonTabListWidgetBase \<Rightarrow> FName \<Rightarrow> crash + (bool \<times> UCommonTabListWidgetBase)" where
  "RemoveTab E st TabNameID =
     (case map_of (RegisteredTabsByID st) TabNameID of
        None \<Rightarrow> Inr (False, st)
      | Some TabInfo \<Rightarrow>
          (case (case TabButton TabInfo of
                   None \<Rightarrow> Inr st
                 | Some Button \<Rightarrow>
                     (case TabButtonGroup st of
                        None \<Rightarrow> Inl NullDereference
                      | Some Group \<Rightarrow>
                          Inr (emit [Button_RemoveFromParent Button]
                                 (foldl HandleTabButtonSelected
                                    (emit [Group_RemoveWidget Button] st)
                                    (RemoveWidget_selects E Button))))) of
             Inl c \<Rightarrow> Inl c
           | Inr st1 \<Rightarrow>
               Inr (True,
                    emit [Call_HandleTabRemoval TabNameID (TabButton TabInfo),
                          Broadcast_OnTabButtonRemoval TabNameID (TabButton TabInfo)]
                      (st1\<lparr>RegisteredTabsByID :=
                             AList.delete TabNameID (RegisteredTabsByID st1)\<rparr>))))"

text \<open>
  \<open>RemoveAllTabs\<close>: the iterator visits the entries in order and \<open>RemoveTab\<close> takes the
  visited one out; removing an entry of a \<open>TMap\<close> leaves the others where they are.
\<close>

fun RemoveAllTabs_loop ::
  "Engine \<Rightarrow> FName list \<Rightarrow> UCommonTabListWidgetBase \<Rightarrow> crash + UCommonTabListWidgetBase" where
  "RemoveAllTabs_loop E [] st = Inr st"
| "RemoveAllTabs_loop E (Key # Iter) st =
     (case RemoveTab E st Key of
        Inl c \<Rightarrow> Inl c
      | Inr (removed, st') \<Rightarrow> RemoveAllTabs_loop E Iter st')"

definition RemoveAllTabs ::
  "Engine \<Rightarrow> UCommonTabListWidgetBase \<Rightarrow> crash + UCommonTabListWidgetBase" where
  "RemoveAllTabs E st = RemoveAllTabs_loop E (map fst (RegisteredTabsByID st)) st"

definition GetTabCount :: "UCommonTabListWidgetBase \<Rightarrow> int" where
  "GetTabCount st = int (length (RegisteredTabsByID st))"

definition UpdateBindings :: "UCommonTabListWidgetBase \<Rightarrow> UCommonTabListWidgetBase" where
  "UpdateBindings st =
     (if bIsListeningForInput st
      then emit [RegisterUIActionBinding_NextTab, RegisterUIActionBinding_PrevTab] st
      else emit [Unregister_NextTabActionHandle, Unregister_PrevTabActionHandle] st)"

definition SetListeningForInput ::
  "Engine \<Rightarrow> UCommonTabListWidgetBase \<Rightarrow> bool \<Rightarrow> UCommonTabListWidgetBase" where
  "SetListeningForInput E st bShouldListen =
     (if bShouldListen \<and> TabButtonGroup st = None then st
      else if GetUISubsystem E = None then st
      else if bShouldListen \<noteq> bIsListeningForInput st
           then UpdateBindings (st\<lparr>bIsListeningForInput := bShouldListen\<rparr>)
           else st)"

text \<open>
  \<open>GetTabIdAtIndex\<close> is \<open>const\<close>: it reads the registry and returns a name. The
  \<open>ensure\<close> checks the upper bound only.
\<close>

fun GetTabIdAtIndex_loop ::
  "int \<Rightarrow> (FName \<times> FCommonRegisteredTabInfo) list \<Rightarrow> FName \<Rightarrow> FName" where
  "GetTabIdAtIndex_loop Index [] FoundId = FoundId"
| "GetTabIdAtIndex_loop Index ((Key, TabInfo) # rest) FoundId =
     (if TabIndex TabInfo = Index then Key else GetTabIdAtIndex_loop Index rest FoundId)"

definition GetTabIdAtIndex :: "UCommonTabListWidgetBase \<Rightarrow> int \<Rightarrow> FName" where
  "GetTabIdAtIndex st Index =
     (let FoundId = NAME_None
      in if Index < int (length (RegisteredTabsByID st))
         then GetTabIdAtIndex_loop Index (RegisteredTabsByID st) FoundId
         else FoundId)"

definition SetLinkedSwitcher ::
  "UCommonTabListWidgetBase \<Rightarrow> UObject option \<Rightarrow> UCommonTabListWidgetBase" where
  "SetLinkedSwitcher st CommonSwitcher =
     (if LinkedSwitcher st \<noteq> CommonSwitcher
      then emit [Call_HandlePostLinkedSwitcherChanged_BP]
             ((emit [Call_HandlePreLinkedSwitcherChanged_BP] st)\<lparr>LinkedSwitcher := CommonSwitcher\<rparr>)
      else st)"

definition NativeOnInitialized ::
  "Engine \<Rightarrow> UCommonTabListWidgetBase \<Rightarrow> UCommonTabListWidgetBase" where
  "NativeOnInitialized E st =
     emit [Group_SetSelectionRequired True]
       ((emit [Super_NativeOnInitialized] st)\<lparr>TabButtonGroup := Some (NewObject E)\<rparr>)"

definition NativeConstruct ::
  "Engine \<Rightarrow> UCommonTabListWidgetBase \<Rightarrow> UCommonTabListWidgetBase" where
  "NativeConstruct E st =
     (let st1 = emit [Super_NativeConstruct] st
      in if bAutoListenForInput st1 then SetListeningForInput E st1 True else st1)"

text \<open>\<open>NativeDestruct\<close> ends with \<open>TabButtonGroup->RemoveAll()\<close>, again unchecked.\<close>

definition NativeDestruct ::
  "Engine \<Rightarrow> UCommonTabListWidgetBase \<Rightarrow> crash + UCommonTabListWidgetBase" where
  "NativeDestruct E st =
     (let st1 = emit [Super_NativeDestruct] st;
          st2 = SetListeningForInput E st1 False;
          st3 = st2\<lparr>ActiveTabID := NAME_None\<rparr>
      in case RemoveAllTabs E st3 of
           Inl c \<Rightarrow> Inl c
         | Inr st4 \<Rightarrow>
             (case TabButtonGroup st4 of
                None \<Rightarrow> Inl NullDereference
              | Some Group \<Rightarrow> Inr (emit [Group_RemoveAll] st4)))"

subsection \<open>Sequences of calls\<close>

text \<open>
  A call into the widget, and a run of calls from a given state; each call comes with
  what the engine answers during it. A run stops at the first crash. The member
  functions left out (\<open>SelectTabByID\<close>, \<open>SetTabVisibility\<close>, \<open>SetTabEnabled\<close>,
  \<open>HandleNextTabAction\<close> and the like) call into the buttons and the group and write no
  member; a selection they cause comes back as \<open>HandleTabButtonSelected\<close>.
\<close>

datatype Op =
    Op_NativeOnInitialized
  | Op_NativeConstruct
  | Op_NativeDestruct
  | Op_RegisterTab FName "UObject option" "UObject option"
  | Op_RemoveTab FName
  | Op_RemoveAllTabs
  | Op_SetListeningForInput bool
  | Op_SetLinkedSwitcher "UObject option"
  | Op_HandleTabButtonSelected "UObject option"

fun step :: "Engine \<Rightarrow> UCommonTabListWidgetBase \<Rightarrow> Op \<Rightarrow> crash + UCommonTabListWidgetBase" where
  "step E st Op_NativeOnInitialized = Inr (NativeOnInitialized E st)"
| "step E st Op_NativeConstruct = Inr (NativeConstruct E st)"
| "step E st Op_NativeDestruct = NativeDestruct E st"
| "step E st (Op_RegisterTab TabNameID ButtonWidgetType ContentWidget) =
     Inr (snd (RegisterTab E st TabNameID ButtonWidgetType ContentWidget))"
| "step E st (Op_RemoveTab TabNameID) =
     (case RemoveTab E st TabNameID of Inl c \<Rightarrow> Inl c | Inr (removed, st') \<Rightarrow> Inr st')"
| "step E st Op_RemoveAllTabs = RemoveAllTabs E st"
| "step E st (Op_SetListeningForInput bShouldListen) =
     Inr (SetListeningForInput E st bShouldListen)"
| "step E st (Op_SetLinkedSwitcher CommonSwitcher) = Inr (SetLinkedSwitcher st CommonSwitcher)"
| "step E st (Op_HandleTabButtonSelected SelectedTabButton) =
     Inr (HandleTabButtonSelected st SelectedTabButton)"

fun run ::
  "UCommonTabListWidgetBase \<Rightarrow> (Engine \<times> Op) list \<Rightarrow> crash + UCommonTabListWidgetBase" where
  "run st [] = Inr st"
| "run st ((E, c) # cs) = (case step E st c of Inl e \<Rightarrow> Inl e | Inr st' \<Rightarrow> run st' cs)"

subsection \<open>Auxiliary notions\<close>

text \<open>The calls that report the removal of a tab, and those a registry gives rise to
  when each of its tabs is removed, in iteration order.\<close>

definition is_removal :: "Call \<Rightarrow> bool" where
  "is_removal c =
     (case c of
        Call_HandleTabRemoval Key Button \<Rightarrow> True
      | Broadcast_OnTabButtonRemoval Key Button \<Rightarrow> True
      | _ \<Rightarrow> False)"

definition removal_calls :: "(FName \<times> FCommonRegisteredTabInfo) list \<Rightarrow> Call list" where
  "removal_calls m =
     concat (map (\<lambda>(Key, TabInfo).
                    [Call_HandleTabRemoval Key (TabButton TabInfo),
                     Broadcast_OnTabButtonRemoval Key (TabButton TabInfo)]) m)"

text \<open>What every registry built by calls satisfies: the keys of a \<open>TMap\<close> are distinct,
  and a \<open>TabIndex\<close> is a value \<open>Num()\<close> once had.\<close>

definition registry_ok :: "(FName \<times> FCommonRegisteredTabInfo) list \<Rightarrow> bool" where
  "registry_ok m =
     (distinct (map fst m) \<and> list_all (\<lambda>(Key, TabInfo). 0 \<le> TabIndex TabInfo) m)"

definition TabIndexOf :: "UCommonTabListWidgetBase \<Rightarrow> FName \<Rightarrow> int option" where
  "TabIndexOf st Key = map_option TabIndex (map_of (RegisteredTabsByID st) Key)"

definition TabIndices :: "UCommonTabListWidgetBase \<Rightarrow> (FName \<times> int) list" where
  "TabIndices st = map (\<lambda>(Key, TabInfo). (Key, TabIndex TabInfo)) (RegisteredTabsByID st)"

text \<open>The \<open>TabIndex\<close> values are the positions in iteration order.\<close>

definition positions_ok :: "(FName \<times> FCommonRegisteredTabInfo) list \<Rightarrow> bool" where
  "positions_ok m = (map (\<lambda>(Key, TabInfo). TabIndex TabInfo) m = map int [0..<length m])"

definition is_RegisterTab :: "Op \<Rightarrow> bool" where
  "is_RegisterTab c =
     (case c of Op_RegisterTab TabNameID ButtonWidgetType ContentWidget \<Rightarrow> True | _ \<Rightarrow> False)"

subsection \<open>Concrete engines and states\<close>

text \<open>
  An engine in normal operation: \<open>CreateWidget\<close> returns the button \<open>b\<close> for a class that
  is not null, the UI subsystem exists, and the button group raises no selection
  change. \<open>Engine_no_widget\<close> differs in that \<open>CreateWidget\<close> fails,
  \<open>Engine_shutting_down\<close> in that \<open>GetUISubsystem\<close> returns \<open>nullptr\<close>, and
  \<open>Engine_reselecting\<close> in that the group, when button 101 is removed, reports
  button 102 as selected.
\<close>

definition Engine_creating :: "UObject \<Rightarrow> Engine" where
  "Engine_creating b =
     \<lparr>CreateWidget = (\<lambda>c. if c = None then None else Some b), NewObject = 1,
      GetUISubsystem = Some 2, AddWidget_selects = (\<lambda>w. []),
      RemoveWidget_selects = (\<lambda>w. [])\<rparr>"

definition Engine_no_widget :: Engine where
  "Engine_no_widget = (Engine_creating 0)\<lparr>CreateWidget := (\<lambda>c. None)\<rparr>"

definition Engine_shutting_down :: Engine where
  "Engine_shutting_down = (Engine_creating 0)\<lparr>GetUISubsystem := None\<rparr>"

definition Engine_reselecting :: Engine where
  "Engine_reselecting =
     (Engine_creating 0)\<lparr>RemoveWidget_selects := (\<lambda>w. if w = 101 then [Some 102] else [])\<rparr>"

text \<open>An initialised widget that listens for input and holds the tabs 1 and 2, with the
  buttons 101 and 102.\<close>

definition Two_tabs :: UCommonTabListWidgetBase where
  "Two_tabs =
     \<lparr>bAutoListenForInput = False, TabButtonGroup = Some 1, bIsListeningForInput = True,
      RegisteredTabsByID =
        [(1, \<lparr>TabIndex = 0, TabButton = Some 101, ContentInstance = None\<rparr>),
         (2, \<lparr>TabIndex = 1, TabButton = Some 102, ContentInstance = None\<rparr>)],
      ActiveTabID = 1, LinkedSwitcher = None, Calls = []\<rparr>"

section \<open>The activatable widget (CommonActivatableWidget.h)\<close>

subsection \<open>Members and inline functions\<close>

datatype ESlateVisibility =
  Visible | Collapsed | Hidden | HitTestInvisible | SelfHitTestInvisible

text \<open>The properties of \<open>UCommonActivatableWidget\<close> and its activation state.\<close>

record UCommonActivatableWidget =
  bAutoActivate :: bool
  bIsBackHandler :: bool
  bSupportsActivationFocus :: bool
  bIsModal :: bool
  bAutoRestoreFocus :: bool
  bSetVisibilityOnActivated :: bool
  ActivatedVisibility :: ESlateVisibility
  bSetVisibilityOnDeactivated :: bool
  DeactivatedVisibility :: ESlateVisibility
  bIsActive :: bool

text \<open>The in-class initialisers of the header.\<close>

definition UCommonActivatableWidget_defaults :: UCommonActivatableWidget where
  "UCommonActivatableWidget_defaults =
     \<lparr>bAutoActivate = False, bIsBackHandler = False, bSupportsActivationFocus = True,
      bIsModal = False, bAutoRestoreFocus = False, bSetVisibilityOnActivated = False,
      ActivatedVisibility = SelfHitTestInvisible, bSetVisibilityOnDeactivated = False,
      DeactivatedVisibility = Collapsed, bIsActive = False\<rparr>"

text \<open>
  A new instance. The properties marked \<open>EditAnywhere\<close> take the values given for the
  instance; \<open>bIsActive\<close> is not editable and starts from its initialiser.
\<close>

definition NewWidget :: "UCommonActivatableWidget \<Rightarrow> UCommonActivatableWidget" where
  "NewWidget properties = properties\<lparr>bIsActive := bIsActive UCommonActivatableWidget_defaults\<rparr>"

definition IsActivated :: "UCommonActivatableWidget \<Rightarrow> bool" where
  "IsActivated w = bIsActive w"

definition IsModal :: "UCommonActivatableWidget \<Rightarrow> bool" where
  "IsModal w = bIsModal w"

definition SupportsActivationFocus :: "UCommonActivatableWidget \<Rightarrow> bool" where
  "SupportsActivationFocus w = bSupportsActivationFocus w"

definition AutoRestoresFocus :: "UCommonActivatableWidget \<Rightarrow> bool" where
  "AutoRestoresFocus w = (bSupportsActivationFocus w \<and> bAutoRestoreFocus w)"

definition SetsVisibilityOnActivated :: "UCommonActivatableWidget \<Rightarrow> bool" where
  "SetsVisibilityOnActivated w = bSetVisibilityOnActivated w"

definition SetsVisibilityOnDeactivated :: "UCommonActivatableWidget \<Rightarrow> bool" where
  "SetsVisibilityOnDeactivated w = bSetVisibilityOnDeactivated w"

subsection \<open>Activation lifecycle\<close>

text \<open>
  Modelled from the spec: the body of \<open>ActivateWidget\<close> is in
  CommonActivatableWidget.cpp, which is not among the sources; the header declares it.
  The spec gives a node a boolean active/inactive state, with activation toggled by
  explicit calls.
\<close>

definition ActivateWidget :: "UCommonActivatableWidget \<Rightarrow> UCommonActivatableWidget" where
  "ActivateWidget w = w\<lparr>bIsActive := True\<rparr>"

text \<open>
  Modelled from the spec: the body of \<open>DeactivateWidget\<close> is not among the sources
  either; it is the call that toggles the node's state back to inactive.
\<close>

definition DeactivateWidget :: "UCommonActivatableWidget \<Rightarrow> UCommonActivatableWidget" where
  "DeactivateWidget w = w\<lparr>bIsActive := False\<rparr>"

text \<open>
  Modelled from the spec: the body of \<open>UCommonActivatableWidget::NativeConstruct\<close> is
  not among the sources. The spec has a node "optionally auto-activated on
  construction"; the header names the option, \<open>bAutoActivate\<close>.
\<close>

definition Activatable_NativeConstruct ::
  "UCommonActivatableWidget \<Rightarrow> UCommonActivatableWidget" where
  "Activatable_NativeConstruct w = (if bAutoActivate w then ActivateWidget w else w)"

text \<open>
  Modelled from the spec: the body of \<open>UCommonActivatableWidget::NativeDestruct\<close> is
  not among the sources. The spec has a node "deactivated on removal"; the header says
  that removing the widget from the UI always deactivates it.
\<close>

definition Activatable_NativeDestruct ::
  "UCommonActivatableWidget \<Rightarrow> UCommonActivatableWidget" where
  "Activatable_NativeDestruct w = DeactivateWidget w"

text \<open>The calls of a widget's life, and a run of them.\<close>

datatype LifecycleCall =
  Do_NativeConstruct | Do_NativeDestruct | Do_ActivateWidget | Do_DeactivateWidget

fun lifecycle_step :: "UCommonActivatableWidget \<Rightarrow> LifecycleCall \<Rightarrow> UCommonActivatableWidget" where
  "lifecycle_step w Do_NativeConstruct = Activatable_NativeConstruct w"
| "lifecycle_step w Do_NativeDestruct = Activatable_NativeDestruct w"
| "lifecycle_step w Do_ActivateWidget = ActivateWidget w"
| "lifecycle_step w Do_DeactivateWidget = DeactivateWidget w"

definition lifecycle_run ::
  "UCommonActivatableWidget \<Rightarrow> LifecycleCall list \<Rightarrow> UCommonActivatableWidget" where
  "lifecycle_run w cs = foldl lifecycle_step w cs"

subsection \<open>Back action\<close>

text \<open>
  Modelled from the spec: the bodies of \<open>HandleBackAction\<close> and
  \<open>NativeOnHandleBackAction\<close> are not among the sources. The spec has a back action
  "handled by deactivating the current back-handler node"; this is the behaviour the
  header calls the default, with no custom handler provided.
\<close>

definition HandleBackAction :: "UCommonActivatableWidget \<Rightarrow> UCommonActivatableWidget" where
  "HandleBackAction w = DeactivateWidget w"

text \<open>
  Modelled from the spec: the registration of the back action with the action router is
  not among the sources. A widget receives back actions when it is a back handler
  (\<open>bIsBackHandler\<close>: "True to receive Back actions automatically") and is active.
\<close>

definition ReceivesBackAction :: "UCommonActivatableWidget \<Rightarrow> bool" where
  "ReceivesBackAction w = (bIsBackHandler w \<and> IsActivated w)"

text \<open>
  Modelled from the spec: the dispatch of a back action to a widget is done by the action
  router, which is not among the sources. The widget handles the action if it receives
  it.
\<close>

definition OnBackAction :: "UCommonActivatableWidget \<Rightarrow> UCommonActivatableWidget" where
  "OnBackAction w = (if ReceivesBackAction w then HandleBackAction w else w)"

subsection \<open>Routing over the tree of activatable widgets\<close>

text \<open>
  A node of the tree: the widget, and what its \<open>GetDesiredInputConfig\<close> (a
  \<open>TOptional\<close>) and \<open>GetDesiredFocusTarget\<close> (a pointer) return. A path lists a node
  and then its parents, leaf first, root last.
\<close>

type_synonym FUIInputConfig = nat

record ActivatableNode =
  Widget :: UCommonActivatableWidget
  GetDesiredInputConfig :: "FUIInputConfig option"
  GetDesiredFocusTarget :: "UObject option"

text \<open>
  Modelled from the spec: the action router that walks the tree is not among the
  sources. The first node of a path can receive input when it is active and all of its
  parents are also active.
\<close>

definition CanReceiveInput :: "ActivatableNode list \<Rightarrow> bool" where
  "CanReceiveInput path = list_all (\<lambda>n. IsActivated (Widget n)) path"

text \<open>
  Modelled from the spec: the action router is not among the sources. Routing goes from
  the leaf toward the root; a modal node blocks routing to its ancestors while it is
  active. \<open>RoutingWalk\<close> lists the nodes that routing reaches.
\<close>

fun RoutingWalk :: "ActivatableNode list \<Rightarrow> ActivatableNode list" where
  "RoutingWalk [] = []"
| "RoutingWalk (n # parents) =
     n # (if IsModal (Widget n) \<and> IsActivated (Widget n) then [] else RoutingWalk parents)"

text \<open>
  Modelled from the spec: the action router is not among the sources. The desired input
  configuration and focus target are resolved by walking from leaf to root and taking
  the first non-null answer; a node is asked only when it can receive input.
\<close>

fun ResolveDesired :: "(ActivatableNode \<Rightarrow> 'a option) \<Rightarrow> ActivatableNode list \<Rightarrow> 'a option" where
  "ResolveDesired ask [] = None"
| "ResolveDesired ask (n # parents) =
     (case (if CanReceiveInput (n # parents) then ask n else None) of
        Some answer \<Rightarrow> Some answer
      | None \<Rightarrow>
          if IsModal (Widget n) \<and> IsActivated (Widget n) then None
          else ResolveDesired ask parents)"

text \<open>
  Modelled from the spec: the input configuration that takes effect for a path is the one
  the walk resolves from the nodes' \<open>GetDesiredInputConfig\<close>.
\<close>

definition DesiredInputConfig :: "ActivatableNode list \<Rightarrow> FUIInputConfig option" where
  "DesiredInputConfig path = ResolveDesired GetDesiredInputConfig path"

text \<open>
  Modelled from the spec: the focus target that takes effect for a path is the one the
  walk resolves from the nodes' \<open>GetDesiredFocusTarget\<close>.
\<close>

definition DesiredFocusTarget :: "ActivatableNode list \<Rightarrow> UObject option" where
  "DesiredFocusTarget path = ResolveDesired GetDesiredFocusTarget path"

text \<open>Three nodes for examples: an active screen with an input configuration and a
  focus target, an active modal popup without either, and an active button row with a
  focus target only.\<close>

definition Screen_node :: ActivatableNode where
  "Screen_node =
     \<lparr>Widget = UCommonActivatableWidget_defaults\<lparr>bIsActive := True\<rparr>,
      GetDesiredInputConfig = Some 1, GetDesiredFocusTarget = Some 11\<rparr>"

definition Popup_node :: ActivatableNode where
  "Popup_node =
     \<lparr>Widget = UCommonActivatableWidget_defaults\<lparr>bIsModal := True, bIsActive := True\<rparr>,
      GetDesiredInputConfig = None, GetDesiredFocusTarget = None\<rparr>"

definition Row_node :: ActivatableNode where
  "Row_node =
     \<lparr>Widget = UCommonActivatableWidget_defaults\<lparr>bIsActive := True\<rparr>,
      GetDesiredInputConfig = None, GetDesiredFocusTarget = Some 33\<rparr>"

section \<open>The input subsystem (CommonInputSubsystem.h)\<close>













section \<open>Properties of the tab list\<close>

subsection \<open>Frame lemmas\<close>

lemma HandleTabButtonSelected_loop_frame:
  "RegisteredTabsByID (HandleTabButtonSelected_loop s xs st) = RegisteredTabsByID st \<and>
   TabButtonGroup (HandleTabButtonSelected_loop s xs st) = TabButtonGroup st \<and>
   bIsListeningForInput (HandleTabButtonSelected_loop s xs st) = bIsListeningForInput st"
  by (induction s xs st rule: HandleTabButtonSelected_loop.induct)
     (auto simp: emit_def Let_def split: option.splits)

lemma HandleTabButtonSelected_loop_removals:
  "filter is_removal (Calls (HandleTabButtonSelected_loop s xs st)) =
   filter is_removal (Calls st)"
  by (induction s xs st rule: HandleTabButtonSelected_loop.induct)
     (auto simp: emit_def Let_def is_removal_def split: option.splits)

lemma HandleTabButtonSelected_frame:
  "RegisteredTabsByID (HandleTabButtonSelected st s) = RegisteredTabsByID st \<and>
   TabButtonGroup (HandleTabButtonSelected st s) = TabButtonGroup st \<and>
   bIsListeningForInput (HandleTabButtonSelected st s) = bIsListeningForInput st \<and>
   filter is_removal (Calls (HandleTabButtonSelected st s)) = filter is_removal (Calls st)"
  by (simp add: HandleTabButtonSelected_def HandleTabButtonSelected_loop_frame
      HandleTabButtonSelected_loop_removals)

lemma foldl_HandleTabButtonSelected_frame:
  "RegisteredTabsByID (foldl HandleTabButtonSelected st ss) = RegisteredTabsByID st \<and>
   TabButtonGroup (foldl HandleTabButtonSelected st ss) = TabButtonGroup st \<and>
   bIsListeningForInput (foldl HandleTabButtonSelected st ss) = bIsListeningForInput st \<and>
   filter is_removal (Calls (foldl HandleTabButtonSelected st ss)) =
     filter is_removal (Calls st)"
  by (induction ss arbitrary: st) (simp_all add: HandleTabButtonSelected_frame)

lemma SetListeningForInput_frame:
  "RegisteredTabsByID (SetListeningForInput E st b) = RegisteredTabsByID st \<and>
   TabButtonGroup (SetListeningForInput E st b) = TabButtonGroup st \<and>
   ActiveTabID (SetListeningForInput E st b) = ActiveTabID st \<and>
   filter is_removal (Calls (SetListeningForInput E st b)) = filter is_removal (Calls st)"
  by (simp add: SetListeningForInput_def UpdateBindings_def emit_def is_removal_def)

lemma SetListeningForInput_False:
  "bIsListeningForInput (SetListeningForInput E st False) =
     (if GetUISubsystem E = None then bIsListeningForInput st else False)"
  by (simp add: SetListeningForInput_def UpdateBindings_def emit_def)

subsection \<open>The map operations\<close>

lemma update_fresh: "map_of m k = None \<Longrightarrow> AList.update k v m = m @ [(k, v)]"
  by (induction m) (auto split: if_splits)

lemma delete_head: "k \<notin> fst ` set m \<Longrightarrow> AList.delete k ((k, v) # m) = m"
  by (simp add: AList.delete_eq) (induction m; auto)

lemma registry_ok_delete: "registry_ok m \<Longrightarrow> registry_ok (AList.delete k m)"
  unfolding registry_ok_def
  by (intro conjI) (simp add: AList.distinct_delete, auto simp: AList.delete_eq list_all_iff)

subsection \<open>RegisterTab and RemoveTab\<close>

lemma RegisterTab_rejects:
  "Contains (RegisteredTabsByID st) TabNameID \<or> ButtonWidgetType = None \<or>
   CreateWidget E ButtonWidgetType = None
   \<Longrightarrow> RegisterTab E st TabNameID ButtonWidgetType ContentWidget = (False, st)"
  by (auto simp: RegisterTab_def IsValid_def)

lemma RegisterTab_accepts:
  assumes "\<not> Contains (RegisteredTabsByID st) TabNameID" "ButtonWidgetType \<noteq> None"
    "CreateWidget E ButtonWidgetType = Some b"
  shows "fst (RegisterTab E st TabNameID ButtonWidgetType ContentWidget) = True"
    and "RegisteredTabsByID (snd (RegisterTab E st TabNameID ButtonWidgetType ContentWidget)) =
         RegisteredTabsByID st @
           [(TabNameID, \<lparr>TabIndex = GetTabCount st, TabButton = Some b,
                         ContentInstance = ContentWidget\<rparr>)]"
  using assms
  by (simp_all add: RegisterTab_def IsValid_def Contains_def Let_def emit_def
      foldl_HandleTabButtonSelected_frame update_fresh GetTabCount_def)

lemma RegisterTab_accepts_map:
  assumes "\<not> Contains (RegisteredTabsByID st) TabNameID" "ButtonWidgetType \<noteq> None"
    "CreateWidget E ButtonWidgetType = Some b"
  shows "map_of (RegisteredTabsByID
           (snd (RegisterTab E st TabNameID ButtonWidgetType ContentWidget))) =
         (map_of (RegisteredTabsByID st))
           (TabNameID \<mapsto> \<lparr>TabIndex = GetTabCount st, TabButton = Some b,
                                ContentInstance = ContentWidget\<rparr>)"
  using assms
  by (simp add: RegisterTab_def IsValid_def Contains_def Let_def emit_def
      foldl_HandleTabButtonSelected_frame update_conv' GetTabCount_def)

lemma RemoveTab_registry:
  "RemoveTab E st k = Inr (r, st') \<Longrightarrow>
     RegisteredTabsByID st' = AList.delete k (RegisteredTabsByID st) \<and>
     TabButtonGroup st' = TabButtonGroup st \<and>
     bIsListeningForInput st' = bIsListeningForInput st"
  by (auto simp: RemoveTab_def emit_def foldl_HandleTabButtonSelected_frame
      map_of_eq_None_iff split: option.splits sum.splits)

lemma RemoveTab_present:
  assumes "map_of (RegisteredTabsByID st) k = Some TabInfo" "TabButtonGroup st = Some g"
  shows "\<exists>st'. RemoveTab E st k = Inr (True, st') \<and>
     filter is_removal (Calls st') = filter is_removal (Calls st) @
        [Call_HandleTabRemoval k (TabButton TabInfo),
         Broadcast_OnTabButtonRemoval k (TabButton TabInfo)]"
  using assms
  by (auto simp: RemoveTab_def emit_def foldl_HandleTabButtonSelected_frame is_removal_def
      split: option.splits)

lemma RemoveTab_ActiveTabID:
  "\<forall>b. RemoveWidget_selects E b = [] \<Longrightarrow> RemoveTab E st k = Inr (r, st') \<Longrightarrow>
   ActiveTabID st' = ActiveTabID st"
  by (auto simp: RemoveTab_def emit_def split: option.splits sum.splits)

subsection \<open>The registry over sequences of calls\<close>

lemma registry_ok_RegisterTab:
  assumes "registry_ok (RegisteredTabsByID st)"
  shows "registry_ok (RegisteredTabsByID (snd (RegisterTab E st k ty cw)))"
proof (cases "Contains (RegisteredTabsByID st) k \<or> ty = None \<or> CreateWidget E ty = None")
  case True
  then show ?thesis using assms by (simp add: RegisterTab_rejects)
next
  case False
  then obtain b where fresh: "\<not> Contains (RegisteredTabsByID st) k"
    and ok: "ty \<noteq> None" "CreateWidget E ty = Some b"
    by auto
  from RegisterTab_accepts(2) [OF fresh ok] assms fresh show ?thesis
    by (auto simp: registry_ok_def Contains_def IsValid_def GetTabCount_def map_of_eq_None_iff)
qed

lemma registry_ok_RemoveAllTabs_loop:
  "registry_ok (RegisteredTabsByID st) \<Longrightarrow> RemoveAllTabs_loop E ks st = Inr st' \<Longrightarrow>
   registry_ok (RegisteredTabsByID st')"
proof (induction ks arbitrary: st)
  case Nil
  then show ?case by simp
next
  case (Cons k ks)
  from Cons.prems(2) obtain r st1 where st1: "RemoveTab E st k = Inr (r, st1)"
    and rest: "RemoveAllTabs_loop E ks st1 = Inr st'"
    by (auto split: sum.splits)
  from RemoveTab_registry [OF st1] Cons.prems(1) have "registry_ok (RegisteredTabsByID st1)"
    by (simp add: registry_ok_delete)
  from Cons.IH [OF this rest] show ?case .
qed

lemma registry_ok_step:
  assumes "registry_ok (RegisteredTabsByID st)" "step E st c = Inr st'"
  shows "registry_ok (RegisteredTabsByID st')"
proof (cases c)
  case Op_NativeOnInitialized
  with assms show ?thesis by (auto simp: NativeOnInitialized_def emit_def)
next
  case Op_NativeConstruct
  with assms show ?thesis
    by (auto simp: NativeConstruct_def Let_def SetListeningForInput_frame emit_def)
next
  case Op_NativeDestruct
  with assms obtain st4 where st4:
    "RemoveAllTabs_loop E (map fst (RegisteredTabsByID st))
       ((SetListeningForInput E (emit [Super_NativeDestruct] st) False)
          \<lparr>ActiveTabID := NAME_None\<rparr>) = Inr st4"
    and st': "RegisteredTabsByID st' = RegisteredTabsByID st4"
    by (auto simp: NativeDestruct_def RemoveAllTabs_def Let_def SetListeningForInput_frame
        emit_def split: sum.splits option.splits)
  from registry_ok_RemoveAllTabs_loop [OF _ st4] assms(1) st' show ?thesis
    by (simp add: SetListeningForInput_frame emit_def)
next
  case (Op_RegisterTab k ty cw)
  with assms show ?thesis using registry_ok_RegisterTab by auto
next
  case (Op_RemoveTab k)
  with assms show ?thesis
    by (auto split: sum.splits dest!: RemoveTab_registry simp: registry_ok_delete)
next
  case Op_RemoveAllTabs
  with assms show ?thesis
    by (auto simp: RemoveAllTabs_def dest: registry_ok_RemoveAllTabs_loop)
next
  case (Op_SetListeningForInput b)
  with assms show ?thesis by (auto simp: SetListeningForInput_frame)
next
  case (Op_SetLinkedSwitcher s)
  with assms show ?thesis by (auto simp: SetLinkedSwitcher_def emit_def)
next
  case (Op_HandleTabButtonSelected s)
  with assms show ?thesis by (auto simp: HandleTabButtonSelected_frame)
qed

text \<open>
  The part of the registry invariant that the code keeps: from a widget with no tabs,
  whatever is called and whatever the engine answers, the identifiers stay distinct and
  no \<open>TabIndex\<close> is negative.
\<close>

lemma registry_ok_run:
  "registry_ok (RegisteredTabsByID st) \<Longrightarrow> run st cs = Inr st' \<Longrightarrow>
   registry_ok (RegisteredTabsByID st')"
proof (induction cs arbitrary: st)
  case Nil
  then show ?case by simp
next
  case (Cons c cs)
  obtain E c' where c: "c = (E, c')" by (cases c)
  with Cons.prems(2) obtain st1 where "step E st c' = Inr st1" "run st1 cs = Inr st'"
    by (auto split: sum.splits)
  with Cons show ?case using registry_ok_step by blast
qed

lemma registry_ok_empty: "RegisteredTabsByID st = [] \<Longrightarrow> registry_ok (RegisteredTabsByID st)"
  by (simp add: registry_ok_def)

lemma distinct_identifiers_run:
  "RegisteredTabsByID st = [] \<Longrightarrow> run st cs = Inr st' \<Longrightarrow>
   distinct (map fst (RegisteredTabsByID st'))"
  using registry_ok_run [OF registry_ok_empty] by (simp add: registry_ok_def)

subsection \<open>Removing all tabs\<close>

lemma RemoveAllTabs_loop_empties:
  assumes "RegisteredTabsByID st = xs" "distinct (map fst xs)" "TabButtonGroup st = Some g"
  shows "\<exists>st'. RemoveAllTabs_loop E (map fst xs) st = Inr st' \<and>
     RegisteredTabsByID st' = [] \<and> TabButtonGroup st' = Some g \<and>
     bIsListeningForInput st' = bIsListeningForInput st \<and>
     filter is_removal (Calls st') = filter is_removal (Calls st) @ removal_calls xs \<and>
     ((\<forall>b. RemoveWidget_selects E b = []) \<longrightarrow> ActiveTabID st' = ActiveTabID st)"
  using assms
proof (induction xs arbitrary: st)
  case Nil
  then show ?case by (simp add: removal_calls_def)
next
  case (Cons x xs)
  obtain k i where x: "x = (k, i)" by (cases x)
  from Cons.prems x have look: "map_of (RegisteredTabsByID st) k = Some i" by simp
  from RemoveTab_present [OF look Cons.prems(3), of E]
  obtain st1 where st1: "RemoveTab E st k = Inr (True, st1)"
    and calls1: "filter is_removal (Calls st1) = filter is_removal (Calls st) @
        [Call_HandleTabRemoval k (TabButton i), Broadcast_OnTabButtonRemoval k (TabButton i)]"
    by blast
  from RemoveTab_registry [OF st1] Cons.prems x
  have reg1: "RegisteredTabsByID st1 = xs" and grp1: "TabButtonGroup st1 = Some g"
    and lis1: "bIsListeningForInput st1 = bIsListeningForInput st"
    by (simp_all add: delete_head)
  from Cons.prems have "distinct (map fst xs)" by simp
  from Cons.IH [OF reg1 this grp1]
  obtain st' where fin: "RemoveAllTabs_loop E (map fst xs) st1 = Inr st'"
    "RegisteredTabsByID st' = []" "TabButtonGroup st' = Some g"
    "bIsListeningForInput st' = bIsListeningForInput st1"
    "filter is_removal (Calls st') = filter is_removal (Calls st1) @ removal_calls xs"
    "(\<forall>b. RemoveWidget_selects E b = []) \<longrightarrow> ActiveTabID st' = ActiveTabID st1"
    by blast
  have act: "(\<forall>b. RemoveWidget_selects E b = []) \<longrightarrow> ActiveTabID st1 = ActiveTabID st"
    using RemoveTab_ActiveTabID [OF _ st1] by blast
  show ?case
    using fin st1 calls1 lis1 act x by (simp add: removal_calls_def)
qed

subsection \<open>Claim C1: the registry invariant\<close>

text \<open>As long as nothing is removed, the \<open>TabIndex\<close> values are the positions in
  registration order.\<close>

lemma positions_ok_RegisterTab:
  assumes "positions_ok (RegisteredTabsByID st)"
  shows "positions_ok (RegisteredTabsByID (snd (RegisterTab E st k ty cw)))"
proof (cases "Contains (RegisteredTabsByID st) k \<or> ty = None \<or> CreateWidget E ty = None")
  case True
  then show ?thesis using assms by (simp add: RegisterTab_rejects)
next
  case False
  then obtain b where fresh: "\<not> Contains (RegisteredTabsByID st) k"
    and ok: "ty \<noteq> None" "CreateWidget E ty = Some b"
    by auto
  from RegisterTab_accepts(2) [OF fresh ok] assms show ?thesis
    by (simp add: positions_ok_def GetTabCount_def)
qed

lemma positions_ok_register_only:
  "positions_ok (RegisteredTabsByID st) \<Longrightarrow> list_all (\<lambda>(E, c). is_RegisterTab c) cs \<Longrightarrow>
   \<exists>st'. run st cs = Inr st' \<and> positions_ok (RegisteredTabsByID st')"
proof (induction cs arbitrary: st)
  case Nil
  then show ?case by simp
next
  case (Cons c cs)
  obtain E c' where c: "c = (E, c')" by (cases c)
  with Cons.prems(2) obtain k ty cw where c': "c' = Op_RegisterTab k ty cw"
    by (cases c') (auto simp: is_RegisterTab_def)
  have "positions_ok (RegisteredTabsByID (snd (RegisterTab E st k ty cw)))"
    using Cons.prems(1) by (rule positions_ok_RegisterTab)
  from Cons.IH [OF this] Cons.prems(2) c c' show ?case by simp
qed

text \<open>
  Claim C1. In every state reached by \<open>RegisterTab\<close> and \<open>RemoveTab\<close> calls the
  registered identifiers are distinct and the stored \<open>TabIndex\<close> values order the tabs
  by registration, also after a \<open>RemoveTab\<close> followed by a \<open>RegisterTab\<close>.

  The identifiers do stay distinct (\<open>distinct_identifiers_run\<close>), and registrations
  alone number the tabs in order (\<open>positions_ok_register_only\<close>). After a removal the
  order does not hold. \<open>RegisterTab\<close> numbers a tab with the current size of the map
  and \<open>RemoveTab\<close> renumbers nothing: on an initialised widget, registering tabs 1 and
  2, removing tab 1 and registering tab 3 leaves two tabs, 2 and 3, both with
  \<open>TabIndex\<close> 1. After the removal alone, the one tab left holds \<open>TabIndex\<close> 1 while
  \<open>GetTabIdAtIndex 1\<close> fails its own bound check, \<open>Index < Num()\<close>, and returns
  \<open>NAME_None\<close>.
\<close>

theorem RegisterTab_after_RemoveTab_repeats_TabIndex:
  "map_sum id (\<lambda>st. (GetTabCount st, TabIndexOf st 2, TabIndexOf st 3))
     (run UCommonTabListWidgetBase_ctor
        [(Engine_creating 0, Op_NativeOnInitialized),
         (Engine_creating 101, Op_RegisterTab 1 (Some 7) None),
         (Engine_creating 102, Op_RegisterTab 2 (Some 7) None),
         (Engine_creating 0, Op_RemoveTab 1),
         (Engine_creating 103, Op_RegisterTab 3 (Some 7) None)]) = Inr (2, Some 1, Some 1) \<and>
   map_sum id (\<lambda>st. (GetTabCount st, TabIndexOf st 2, GetTabIdAtIndex st 1))
     (run UCommonTabListWidgetBase_ctor
        [(Engine_creating 0, Op_NativeOnInitialized),
         (Engine_creating 101, Op_RegisterTab 1 (Some 7) None),
         (Engine_creating 102, Op_RegisterTab 2 (Some 7) None),
         (Engine_creating 0, Op_RemoveTab 1)]) = Inr (1, Some 1, NAME_None)"
  by (simp add: TabIndexOf_def GetTabCount_def Engine_creating_def UCommonTabListWidgetBase_ctor_def
      NativeOnInitialized_def RegisterTab_def RemoveTab_def GetTabIdAtIndex_def emit_def
      Contains_def IsValid_def Let_def)

subsection \<open>Claim C2: the outcomes of RegisterTab\<close>

text \<open>
  Claim C2, as amended. \<open>RegisterTab\<close> returns \<open>false\<close> and leaves the widget as it was
  when the identifier is already registered, when the button class is null, and also
  when both are fine and \<open>CreateWidget\<close> yields no button. Otherwise it returns \<open>true\<close>
  and the registry has one entry more: the old entries as they were, and one under the
  identifier whose \<open>TabIndex\<close> is the number of tabs registered before the call.
\<close>

theorem RegisterTab_outcomes:
  "(Contains (RegisteredTabsByID st) TabNameID \<or> ButtonWidgetType = None \<longrightarrow>
      RegisterTab E st TabNameID ButtonWidgetType ContentWidget = (False, st)) \<and>
   (\<not> Contains (RegisteredTabsByID st) TabNameID \<and> ButtonWidgetType \<noteq> None \<and>
    CreateWidget E ButtonWidgetType = None \<longrightarrow>
      RegisterTab E st TabNameID ButtonWidgetType ContentWidget = (False, st)) \<and>
   (\<not> Contains (RegisteredTabsByID st) TabNameID \<and> ButtonWidgetType \<noteq> None \<and>
    CreateWidget E ButtonWidgetType = Some NewTabButton \<longrightarrow>
      fst (RegisterTab E st TabNameID ButtonWidgetType ContentWidget) = True \<and>
      GetTabCount (snd (RegisterTab E st TabNameID ButtonWidgetType ContentWidget)) =
        GetTabCount st + 1 \<and>
      map_of (RegisteredTabsByID
          (snd (RegisterTab E st TabNameID ButtonWidgetType ContentWidget))) =
        (map_of (RegisteredTabsByID st))
          (TabNameID \<mapsto> \<lparr>TabIndex = GetTabCount st, TabButton = Some NewTabButton,
                               ContentInstance = ContentWidget\<rparr>))"
proof (intro conjI impI)
  assume "Contains (RegisteredTabsByID st) TabNameID \<or> ButtonWidgetType = None"
  then show "RegisterTab E st TabNameID ButtonWidgetType ContentWidget = (False, st)"
    using RegisterTab_rejects by blast
next
  assume "\<not> Contains (RegisteredTabsByID st) TabNameID \<and> ButtonWidgetType \<noteq> None \<and>
    CreateWidget E ButtonWidgetType = None"
  then show "RegisterTab E st TabNameID ButtonWidgetType ContentWidget = (False, st)"
    using RegisterTab_rejects by blast
next
  assume a: "\<not> Contains (RegisteredTabsByID st) TabNameID \<and> ButtonWidgetType \<noteq> None \<and>
    CreateWidget E ButtonWidgetType = Some NewTabButton"
  then show "fst (RegisterTab E st TabNameID ButtonWidgetType ContentWidget) = True"
    using RegisterTab_accepts(1) by blast
  from a have "RegisteredTabsByID
       (snd (RegisterTab E st TabNameID ButtonWidgetType ContentWidget)) =
     RegisteredTabsByID st @
       [(TabNameID, \<lparr>TabIndex = GetTabCount st, TabButton = Some NewTabButton,
                     ContentInstance = ContentWidget\<rparr>)]"
    using RegisterTab_accepts(2) by blast
  then show "GetTabCount (snd (RegisterTab E st TabNameID ButtonWidgetType ContentWidget)) =
      GetTabCount st + 1"
    by (simp add: GetTabCount_def)
  from a show
    "map_of (RegisteredTabsByID
        (snd (RegisterTab E st TabNameID ButtonWidgetType ContentWidget))) =
       (map_of (RegisteredTabsByID st))
         (TabNameID \<mapsto> \<lparr>TabIndex = GetTabCount st, TabButton = Some NewTabButton,
                              ContentInstance = ContentWidget\<rparr>)"
    using RegisterTab_accepts_map by blast
qed

text \<open>The three outcomes on the widget with tabs 1 and 2: tab 2 again, tab 3 when no
  button can be created, and tab 3 with the button 103.\<close>

theorem RegisterTab_outcomes_witness:
  "Contains (RegisteredTabsByID Two_tabs) 2 \<and>
   RegisterTab (Engine_creating 103) Two_tabs 2 (Some 7) None = (False, Two_tabs) \<and>
   \<not> Contains (RegisteredTabsByID Two_tabs) 3 \<and>
   CreateWidget Engine_no_widget (Some 7) = None \<and>
   RegisterTab Engine_no_widget Two_tabs 3 (Some 7) None = (False, Two_tabs) \<and>
   CreateWidget (Engine_creating 103) (Some 7) = Some 103 \<and>
   fst (RegisterTab (Engine_creating 103) Two_tabs 3 (Some 7) None) = True \<and>
   GetTabCount (snd (RegisterTab (Engine_creating 103) Two_tabs 3 (Some 7) None)) = 3 \<and>
   map (TabIndexOf (snd (RegisterTab (Engine_creating 103) Two_tabs 3 (Some 7) None)))
     [1, 2, 3] = [Some 0, Some 1, Some 2]"
  using RegisterTab_outcomes [of Two_tabs 2 "Some 7" "Engine_creating 103" None 103]
    RegisterTab_outcomes [of Two_tabs 3 "Some 7" Engine_no_widget None 103]
    RegisterTab_outcomes [of Two_tabs 3 "Some 7" "Engine_creating 103" None 103]
  by (simp add: Two_tabs_def Contains_def IsValid_def Engine_creating_def Engine_no_widget_def
      TabIndexOf_def GetTabCount_def)

text \<open>
  The claim as written promises \<open>true\<close> whenever the identifier is new and the class is
  not null. With an engine whose \<open>CreateWidget\<close> returns \<open>nullptr\<close> the call returns
  \<open>false\<close>.
\<close>

theorem RegisterTab_new_id_valid_class_counterexample:
  "\<not> Contains (RegisteredTabsByID Two_tabs) 3 \<and> IsValid (Some (7 :: UObject)) \<and>
   fst (RegisterTab Engine_no_widget Two_tabs 3 (Some 7) None) = False"
  by (simp add: Two_tabs_def Contains_def IsValid_def Engine_creating_def Engine_no_widget_def
      RegisterTab_def)

subsection \<open>Claim C5: teardown\<close>

text \<open>
  Claim C5, as amended. On a widget whose button group exists, \<open>NativeDestruct\<close>
  returns, and afterwards no tab is registered, whatever the registry held;
  \<open>HandleTabRemoval\<close> and \<open>OnTabButtonRemoval\<close> have been raised once for each tab, in
  iteration order; the widget has stopped listening for input if \<open>GetUISubsystem\<close> is
  not null, and listens as before if it is null; and \<open>ActiveTabID\<close> is \<open>NAME_None\<close> if
  the button group raises no selection change while the buttons are removed.
\<close>

theorem NativeDestruct_clears_registry:
  assumes "TabButtonGroup st = Some Group"
    and "distinct (map fst (RegisteredTabsByID st))"
  shows "\<exists>st'. NativeDestruct E st = Inr st' \<and> GetTabCount st' = 0 \<and>
     filter is_removal (Calls st') =
       filter is_removal (Calls st) @ removal_calls (RegisteredTabsByID st) \<and>
     bIsListeningForInput st' =
       (if GetUISubsystem E = None then bIsListeningForInput st else False) \<and>
     ((\<forall>b. RemoveWidget_selects E b = []) \<longrightarrow> ActiveTabID st' = NAME_None)"
proof -
  define st1 where "st1 = emit [Super_NativeDestruct] st"
  define st3 where "st3 = (SetListeningForInput E st1 False)\<lparr>ActiveTabID := NAME_None\<rparr>"
  have reg3: "RegisteredTabsByID st3 = RegisteredTabsByID st"
    and grp3: "TabButtonGroup st3 = Some Group"
    and lis3: "bIsListeningForInput st3 =
         (if GetUISubsystem E = None then bIsListeningForInput st else False)"
    and calls3: "filter is_removal (Calls st3) = filter is_removal (Calls st)"
    and act3: "ActiveTabID st3 = NAME_None"
    using assms(1)
    by (simp_all add: st3_def st1_def SetListeningForInput_frame SetListeningForInput_False
        emit_def is_removal_def)
  from RemoveAllTabs_loop_empties [OF reg3 assms(2) grp3, of E]
  obtain st4 where st4: "RemoveAllTabs E st3 = Inr st4" "RegisteredTabsByID st4 = []"
    "TabButtonGroup st4 = Some Group" "bIsListeningForInput st4 = bIsListeningForInput st3"
    "filter is_removal (Calls st4) =
       filter is_removal (Calls st3) @ removal_calls (RegisteredTabsByID st)"
    "(\<forall>b. RemoveWidget_selects E b = []) \<longrightarrow> ActiveTabID st4 = ActiveTabID st3"
    unfolding RemoveAllTabs_def reg3 by blast
  have "NativeDestruct E st = Inr (emit [Group_RemoveAll] st4)"
    using st4(1,3) by (simp add: NativeDestruct_def Let_def st3_def st1_def)
  then show ?thesis
    using st4 lis3 calls3 act3 by (simp add: emit_def GetTabCount_def is_removal_def)
qed

theorem NativeDestruct_clears_registry_witness:
  "TabButtonGroup Two_tabs = Some 1 \<and> distinct (map fst (RegisteredTabsByID Two_tabs)) \<and>
   GetUISubsystem (Engine_creating 0) = Some 2 \<and>
   RemoveWidget_selects (Engine_creating 0) = (\<lambda>b. []) \<and>
   (\<exists>st'. NativeDestruct (Engine_creating 0) Two_tabs = Inr st' \<and> GetTabCount st' = 0 \<and>
      filter is_removal (Calls st') =
        [Call_HandleTabRemoval 1 (Some 101), Broadcast_OnTabButtonRemoval 1 (Some 101),
         Call_HandleTabRemoval 2 (Some 102), Broadcast_OnTabButtonRemoval 2 (Some 102)] \<and>
      bIsListeningForInput st' = False \<and> ActiveTabID st' = NAME_None)"
  using NativeDestruct_clears_registry [of Two_tabs 1 "Engine_creating 0"]
  by (simp add: Two_tabs_def Engine_creating_def removal_calls_def)

text \<open>
  The claim as written has the widget stop listening after every teardown. While the
  engine shuts down (\<open>GetUISubsystem\<close> returns \<open>nullptr\<close>), \<open>SetListeningForInput\<close>
  returns before it touches \<open>bIsListeningForInput\<close>: the tabs are removed and the widget
  still counts as listening.
\<close>

theorem NativeDestruct_still_listening_counterexample:
  "map_sum id (\<lambda>st. (GetTabCount st, bIsListeningForInput st))
     (NativeDestruct Engine_shutting_down Two_tabs) = Inr (0, True)"
  by (simp add: Two_tabs_def Engine_shutting_down_def Engine_creating_def NativeDestruct_def
      RemoveAllTabs_def RemoveTab_def SetListeningForInput_def GetTabCount_def emit_def Let_def)

text \<open>
  \<open>ActiveTabID\<close> is cleared before the tabs are removed. A button group that, when
  button 101 is taken out, reports button 102 as selected gets \<open>ActiveTabID\<close> set to
  tab 2 by \<open>HandleTabButtonSelected\<close>, and nothing clears it afterwards.
\<close>

lemma NativeDestruct_ActiveTabID_reselected:
  "map_sum id (\<lambda>st. (GetTabCount st, ActiveTabID st))
     (NativeDestruct Engine_reselecting Two_tabs) = Inr (0, 2)"
  by (simp add: Two_tabs_def Engine_reselecting_def Engine_creating_def NativeDestruct_def
      RemoveAllTabs_def RemoveTab_def SetListeningForInput_def GetTabCount_def emit_def Let_def
      HandleTabButtonSelected_def UpdateBindings_def IsValid_def)

text \<open>The state \<open>Two_tabs\<close> is one the calls produce.\<close>

lemma Two_tabs_reached:
  "map_sum id (\<lambda>st. st\<lparr>Calls := []\<rparr>)
     (run UCommonTabListWidgetBase_ctor
        [(Engine_creating 0, Op_NativeOnInitialized),
         (Engine_creating 0, Op_SetListeningForInput True),
         (Engine_creating 101, Op_RegisterTab 1 (Some 7) None),
         (Engine_creating 102, Op_RegisterTab 2 (Some 7) None),
         (Engine_creating 0, Op_HandleTabButtonSelected (Some 101))]) = Inr Two_tabs"
  by (simp add: Two_tabs_def Engine_creating_def UCommonTabListWidgetBase_ctor_def
      NativeOnInitialized_def RegisterTab_def SetListeningForInput_def UpdateBindings_def
      HandleTabButtonSelected_def emit_def Contains_def IsValid_def Let_def)

subsection \<open>Claim C10: GetTabIdAtIndex on an unoccupied index\<close>

lemma GetTabIdAtIndex_loop_none:
  "\<forall>(Key, TabInfo) \<in> set m. TabIndex TabInfo \<noteq> Index \<Longrightarrow>
   GetTabIdAtIndex_loop Index m FoundId = FoundId"
  by (induction Index m FoundId rule: GetTabIdAtIndex_loop.induct) auto

text \<open>
  Claim C10. \<open>GetTabIdAtIndex\<close> returns \<open>NAME_None\<close> whenever no registered tab has the
  given \<open>TabIndex\<close>; after any calls on a widget that started without tabs, as the
  constructor leaves it, this covers every negative index, which passes the bound check
  \<open>Index < Num()\<close> and matches no tab. The function reads the widget and returns a
  name: there is no state for it to change.
\<close>

theorem GetTabIdAtIndex_unoccupied:
  "((\<forall>(Key, TabInfo) \<in> set (RegisteredTabsByID st). TabIndex TabInfo \<noteq> Index) \<longrightarrow>
      GetTabIdAtIndex st Index = NAME_None) \<and>
   (RegisteredTabsByID st0 = [] \<and> run st0 calls = Inr st \<and> Index < 0 \<longrightarrow>
      GetTabIdAtIndex st Index = NAME_None)"
proof (intro conjI impI)
  assume "\<forall>(Key, TabInfo) \<in> set (RegisteredTabsByID st). TabIndex TabInfo \<noteq> Index"
  then show "GetTabIdAtIndex st Index = NAME_None"
    by (simp add: GetTabIdAtIndex_def GetTabIdAtIndex_loop_none)
next
  assume a: "RegisteredTabsByID st0 = [] \<and> run st0 calls = Inr st \<and> Index < 0"
  then have "registry_ok (RegisteredTabsByID st)"
    using registry_ok_run [OF registry_ok_empty] by blast
  with a have "\<forall>(Key, TabInfo) \<in> set (RegisteredTabsByID st). TabIndex TabInfo \<noteq> Index"
    by (auto simp: registry_ok_def list_all_iff)
  then show "GetTabIdAtIndex st Index = NAME_None"
    by (simp add: GetTabIdAtIndex_def GetTabIdAtIndex_loop_none)
qed

text \<open>After registering tabs 1 and 2 and removing tab 1, the only tab has \<open>TabIndex\<close> 1:
  index 0 is in range and unoccupied, index \<open>-1\<close> is negative.\<close>

theorem GetTabIdAtIndex_unoccupied_witness:
  "(\<exists>st. run UCommonTabListWidgetBase_ctor
       [(Engine_creating 0, Op_NativeOnInitialized),
        (Engine_creating 101, Op_RegisterTab 1 (Some 7) None),
        (Engine_creating 102, Op_RegisterTab 2 (Some 7) None),
        (Engine_creating 0, Op_RemoveTab 1)] = Inr st \<and>
      TabIndices st = [(2, 1)] \<and> GetTabCount st = 1 \<and>
      GetTabIdAtIndex st 0 = NAME_None \<and> GetTabIdAtIndex st (- 1) = NAME_None)"
proof -
  define cs where "cs =
       [(Engine_creating 0, Op_NativeOnInitialized),
        (Engine_creating 101, Op_RegisterTab 1 (Some 7) None),
        (Engine_creating 102, Op_RegisterTab 2 (Some 7) None),
        (Engine_creating 0, Op_RemoveTab 1)]"
  obtain st where st: "run UCommonTabListWidgetBase_ctor cs = Inr st"
    and idx: "TabIndices st = [(2, 1)]" and cnt: "GetTabCount st = 1"
    by (simp add: cs_def TabIndices_def GetTabCount_def Engine_creating_def
        UCommonTabListWidgetBase_ctor_def NativeOnInitialized_def RegisterTab_def RemoveTab_def
        emit_def Contains_def IsValid_def Let_def)
  from idx have free: "\<forall>(Key, TabInfo) \<in> set (RegisteredTabsByID st). TabIndex TabInfo \<noteq> 0"
    by (auto simp: TabIndices_def)
  have "GetTabIdAtIndex st 0 = NAME_None"
    using GetTabIdAtIndex_unoccupied [of st 0 UCommonTabListWidgetBase_ctor cs] free by blast
  moreover have "GetTabIdAtIndex st (- 1) = NAME_None"
    using GetTabIdAtIndex_unoccupied [of st "- 1" UCommonTabListWidgetBase_ctor cs] st
    by (simp add: UCommonTabListWidgetBase_ctor_def)
  ultimately show ?thesis
    using st idx cnt unfolding cs_def by blast
qed

section \<open>Properties of the activatable widget\<close>

subsection \<open>Claim C9: AutoRestoresFocus\<close>

text \<open>
  Claim C9. \<open>AutoRestoresFocus()\<close> is the conjunction of \<open>bSupportsActivationFocus\<close> and
  \<open>bAutoRestoreFocus\<close>: it holds only when \<open>SupportsActivationFocus()\<close> holds, and
  setting \<open>bAutoRestoreFocus\<close> on a widget whose \<open>bSupportsActivationFocus\<close> is false
  does not enable it.
\<close>

theorem AutoRestoresFocus_needs_activation_focus:
  "AutoRestoresFocus w = (bSupportsActivationFocus w \<and> bAutoRestoreFocus w) \<and>
   (AutoRestoresFocus w \<longrightarrow> SupportsActivationFocus w) \<and>
   (\<not> bSupportsActivationFocus w \<longrightarrow> \<not> AutoRestoresFocus (w\<lparr>bAutoRestoreFocus := True\<rparr>))"
  by (simp add: AutoRestoresFocus_def SupportsActivationFocus_def)

theorem AutoRestoresFocus_needs_activation_focus_witness:
  "AutoRestoresFocus (UCommonActivatableWidget_defaults\<lparr>bAutoRestoreFocus := True\<rparr>) \<and>
   SupportsActivationFocus (UCommonActivatableWidget_defaults\<lparr>bAutoRestoreFocus := True\<rparr>) \<and>
   \<not> bSupportsActivationFocus
       (UCommonActivatableWidget_defaults\<lparr>bSupportsActivationFocus := False\<rparr>) \<and>
   \<not> AutoRestoresFocus
       (UCommonActivatableWidget_defaults
          \<lparr>bSupportsActivationFocus := False, bAutoRestoreFocus := True\<rparr>)"
  using AutoRestoresFocus_needs_activation_focus
      [of "UCommonActivatableWidget_defaults\<lparr>bAutoRestoreFocus := True\<rparr>"]
    AutoRestoresFocus_needs_activation_focus
      [of "UCommonActivatableWidget_defaults\<lparr>bSupportsActivationFocus := False\<rparr>"]
  by (simp add: UCommonActivatableWidget_defaults_def)

subsection \<open>Claim C4: the activation lifecycle\<close>

lemma lifecycle_step_properties:
  "(lifecycle_step w c)\<lparr>bIsActive := a\<rparr> = w\<lparr>bIsActive := a\<rparr>"
  by (cases c)
     (simp_all add: Activatable_NativeConstruct_def Activatable_NativeDestruct_def
        ActivateWidget_def DeactivateWidget_def)

lemma lifecycle_run_properties:
  "(lifecycle_run w cs)\<lparr>bIsActive := a\<rparr> = w\<lparr>bIsActive := a\<rparr>"
  unfolding lifecycle_run_def
proof (induction cs arbitrary: w)
  case Nil
  show ?case by simp
next
  case (Cons c cs)
  show ?case by (simp add: Cons.IH lifecycle_step_properties)
qed

lemma lifecycle_run_snoc:
  "lifecycle_run w (cs @ [c]) = lifecycle_step (lifecycle_run w cs) c"
  by (simp add: lifecycle_run_def)

text \<open>
  Claim C4. A new widget is inactive. \<open>NativeConstruct\<close> on an inactive widget (a new
  one, or one that \<open>NativeDestruct\<close> has left) makes it active if and only if
  \<open>bAutoActivate\<close> is true; \<open>NativeDestruct\<close> always leaves it inactive, and the widget
  with all its properties remains; in between, after any calls, \<open>ActivateWidget\<close>
  makes it active and \<open>DeactivateWidget\<close> inactive. No call in a widget's life changes
  a property other than the active state.
\<close>

theorem activation_lifecycle:
  "\<not> IsActivated (NewWidget properties) \<and>
   IsActivated (Activatable_NativeConstruct (NewWidget properties)) = bAutoActivate properties \<and>
   IsActivated (Activatable_NativeConstruct w) = (bAutoActivate w \<or> IsActivated w) \<and>
   \<not> IsActivated (Activatable_NativeDestruct w) \<and>
   Activatable_NativeDestruct w = w\<lparr>bIsActive := False\<rparr> \<and>
   IsActivated (Activatable_NativeConstruct (Activatable_NativeDestruct w)) = bAutoActivate w \<and>
   IsActivated (lifecycle_run w (cs @ [Do_ActivateWidget])) \<and>
   \<not> IsActivated (lifecycle_run w (cs @ [Do_DeactivateWidget])) \<and>
   \<not> IsActivated (lifecycle_run w (cs @ [Do_NativeDestruct])) \<and>
   (lifecycle_run w cs)\<lparr>bIsActive := bIsActive w\<rparr> = w"
proof -
  have "(lifecycle_run w cs)\<lparr>bIsActive := bIsActive w\<rparr> = w"
    using lifecycle_run_properties [where w = w and cs = cs and a = "bIsActive w"] by simp
  then show ?thesis
    by (simp add: lifecycle_run_snoc NewWidget_def UCommonActivatableWidget_defaults_def
        IsActivated_def Activatable_NativeConstruct_def Activatable_NativeDestruct_def
        ActivateWidget_def DeactivateWidget_def)
qed

text \<open>A widget with the default properties stays inactive when constructed, one with
  \<open>bAutoActivate\<close> set becomes active; a widget activated after construction is
  inactive after \<open>NativeDestruct\<close> and stays so when constructed again.\<close>

theorem activation_lifecycle_witness:
  "\<not> IsActivated (Activatable_NativeConstruct (NewWidget UCommonActivatableWidget_defaults)) \<and>
   IsActivated (Activatable_NativeConstruct
     (NewWidget (UCommonActivatableWidget_defaults\<lparr>bAutoActivate := True\<rparr>))) \<and>
   IsActivated (lifecycle_run (NewWidget UCommonActivatableWidget_defaults)
     [Do_NativeConstruct, Do_ActivateWidget]) \<and>
   \<not> IsActivated (lifecycle_run (NewWidget UCommonActivatableWidget_defaults)
     [Do_NativeConstruct, Do_ActivateWidget, Do_NativeDestruct]) \<and>
   \<not> IsActivated (lifecycle_run (NewWidget UCommonActivatableWidget_defaults)
     [Do_NativeConstruct, Do_ActivateWidget, Do_NativeDestruct, Do_NativeConstruct])"
  using activation_lifecycle
      [of UCommonActivatableWidget_defaults "NewWidget UCommonActivatableWidget_defaults"
          "[Do_NativeConstruct]"]
    activation_lifecycle
      [of "UCommonActivatableWidget_defaults\<lparr>bAutoActivate := True\<rparr>"
          "NewWidget UCommonActivatableWidget_defaults"
          "[Do_NativeConstruct, Do_ActivateWidget]"]
  by (simp add: lifecycle_run_def NewWidget_def UCommonActivatableWidget_defaults_def
      IsActivated_def Activatable_NativeConstruct_def Activatable_NativeDestruct_def
      ActivateWidget_def DeactivateWidget_def)

subsection \<open>Claim C7: the back action\<close>

text \<open>
  Claim C7. A back action received by an active back handler deactivates it and leaves
  every other member of the widget as it was, so the widget can be activated again; a
  widget whose \<open>bIsBackHandler\<close> is false does not receive back actions and is left
  untouched by one.
\<close>

theorem back_action_deactivates_back_handler:
  "(bIsBackHandler w \<and> IsActivated w \<longrightarrow>
      ReceivesBackAction w \<and> \<not> IsActivated (OnBackAction w) \<and>
      OnBackAction w = w\<lparr>bIsActive := False\<rparr> \<and>
      ActivateWidget (OnBackAction w) = w) \<and>
   (\<not> bIsBackHandler w \<longrightarrow> \<not> ReceivesBackAction w \<and> OnBackAction w = w)"
  by (simp add: OnBackAction_def ReceivesBackAction_def HandleBackAction_def
      DeactivateWidget_def ActivateWidget_def IsActivated_def)

theorem back_action_deactivates_back_handler_witness:
  "bIsBackHandler (UCommonActivatableWidget_defaults\<lparr>bIsBackHandler := True, bIsActive := True\<rparr>) \<and>
   IsActivated (UCommonActivatableWidget_defaults\<lparr>bIsBackHandler := True, bIsActive := True\<rparr>) \<and>
   OnBackAction (UCommonActivatableWidget_defaults\<lparr>bIsBackHandler := True, bIsActive := True\<rparr>) =
     UCommonActivatableWidget_defaults\<lparr>bIsBackHandler := True\<rparr> \<and>
   \<not> bIsBackHandler (UCommonActivatableWidget_defaults\<lparr>bIsActive := True\<rparr>) \<and>
   OnBackAction (UCommonActivatableWidget_defaults\<lparr>bIsActive := True\<rparr>) =
     UCommonActivatableWidget_defaults\<lparr>bIsActive := True\<rparr>"
  using back_action_deactivates_back_handler
      [of "UCommonActivatableWidget_defaults\<lparr>bIsBackHandler := True, bIsActive := True\<rparr>"]
    back_action_deactivates_back_handler
      [of "UCommonActivatableWidget_defaults\<lparr>bIsActive := True\<rparr>"]
  by (simp add: UCommonActivatableWidget_defaults_def IsActivated_def)

subsection \<open>Claim C6: the resolution walk\<close>

lemma RoutingWalk_length: "length (RoutingWalk path) \<le> length path"
  by (induction path) auto

lemma RoutingWalk_prefix: "RoutingWalk path = take (length (RoutingWalk path)) path"
  by (induction path) auto

lemma ResolveDesired_Some_iff:
  "ResolveDesired ask path = Some a \<longleftrightarrow>
     (\<exists>i < length (RoutingWalk path). CanReceiveInput (drop i path) \<and>
        ask (path ! i) = Some a \<and>
        (\<forall>j < i. CanReceiveInput (drop j path) \<longrightarrow> ask (path ! j) = None))"
proof (induction path)
  case Nil
  show ?case by simp
next
  case (Cons n parents)
  show ?case
  proof (cases "CanReceiveInput (n # parents) \<and> ask n \<noteq> None")
    case True
    then obtain b where b: "CanReceiveInput (n # parents)" "ask n = Some b" by auto
    then have "ResolveDesired ask (n # parents) = Some b" by simp
    moreover have "(\<exists>i < length (RoutingWalk (n # parents)).
        CanReceiveInput (drop i (n # parents)) \<and> ask ((n # parents) ! i) = Some a \<and>
        (\<forall>j < i. CanReceiveInput (drop j (n # parents)) \<longrightarrow> ask ((n # parents) ! j) = None))
      \<longleftrightarrow> a = b"
    proof
      assume "\<exists>i < length (RoutingWalk (n # parents)).
        CanReceiveInput (drop i (n # parents)) \<and> ask ((n # parents) ! i) = Some a \<and>
        (\<forall>j < i. CanReceiveInput (drop j (n # parents)) \<longrightarrow> ask ((n # parents) ! j) = None)"
      then obtain i where i: "ask ((n # parents) ! i) = Some a"
        "\<forall>j < i. CanReceiveInput (drop j (n # parents)) \<longrightarrow> ask ((n # parents) ! j) = None"
        by blast
      show "a = b"
      proof (cases i)
        case 0
        with i(1) b(2) show ?thesis by simp
      next
        case (Suc i')
        with i(2) have "CanReceiveInput (drop 0 (n # parents)) \<longrightarrow> ask ((n # parents) ! 0) = None"
          by blast
        with b show ?thesis by simp
      qed
    next
      assume "a = b"
      with b have "0 < length (RoutingWalk (n # parents)) \<and>
        CanReceiveInput (drop 0 (n # parents)) \<and> ask ((n # parents) ! 0) = Some a \<and>
        (\<forall>j < 0. CanReceiveInput (drop j (n # parents)) \<longrightarrow> ask ((n # parents) ! j) = None)"
        by simp
      then show "\<exists>i < length (RoutingWalk (n # parents)).
        CanReceiveInput (drop i (n # parents)) \<and> ask ((n # parents) ! i) = Some a \<and>
        (\<forall>j < i. CanReceiveInput (drop j (n # parents)) \<longrightarrow> ask ((n # parents) ! j) = None)"
        by blast
    qed
    ultimately show ?thesis by auto
  next
    case False
    then have skip: "(if CanReceiveInput (n # parents) then ask n else None) = None" by auto
    have head: "CanReceiveInput (drop 0 (n # parents)) \<longrightarrow> ask ((n # parents) ! 0) = None"
      using False by auto
    show ?thesis
    proof (cases "IsModal (Widget n) \<and> IsActivated (Widget n)")
      case True
      then have "ResolveDesired ask (n # parents) = None" using skip by simp
      moreover from True have "length (RoutingWalk (n # parents)) = 1" by simp
      ultimately show ?thesis using head by auto
    next
      case nonmodal: False
      then have res: "ResolveDesired ask (n # parents) = ResolveDesired ask parents"
        using skip by auto
      from nonmodal have len: "length (RoutingWalk (n # parents)) = Suc (length (RoutingWalk parents))"
        by auto
      show ?thesis
        unfolding res len Cons.IH Ex_less_Suc2 using head
        by (auto simp: All_less_Suc2)
    qed
  qed
qed

lemma ResolveDesired_None_iff:
  "ResolveDesired ask path = None \<longleftrightarrow>
     (\<forall>i < length (RoutingWalk path). CanReceiveInput (drop i path) \<longrightarrow> ask (path ! i) = None)"
proof (induction path)
  case Nil
  show ?case by simp
next
  case (Cons n parents)
  show ?case
  proof (cases "IsModal (Widget n) \<and> IsActivated (Widget n)")
    case True
    then show ?thesis by (auto split: option.splits)
  next
    case False
    then have len: "length (RoutingWalk (n # parents)) = Suc (length (RoutingWalk parents))"
      by auto
    from False show ?thesis
      unfolding len All_less_Suc2 using Cons.IH
      by (auto split: option.splits)
  qed
qed

text \<open>
  Claim C6. The desired input configuration and the desired focus target are the first
  non-null answer on the walk from the leaf toward the root, among the nodes that can
  receive input (all of their parents are also active): an answer is returned exactly
  when some node the walk reaches can receive input and gives it while every node
  before it either cannot receive input or answers null, and null is returned exactly
  when no reached node that can receive input has an answer.
\<close>

theorem desired_config_and_focus_first_answer:
  "(DesiredInputConfig path = Some c \<longleftrightarrow>
      (\<exists>i < length (RoutingWalk path). CanReceiveInput (drop i path) \<and>
         GetDesiredInputConfig (path ! i) = Some c \<and>
         (\<forall>j < i. CanReceiveInput (drop j path) \<longrightarrow> GetDesiredInputConfig (path ! j) = None))) \<and>
   (DesiredInputConfig path = None \<longleftrightarrow>
      (\<forall>i < length (RoutingWalk path).
         CanReceiveInput (drop i path) \<longrightarrow> GetDesiredInputConfig (path ! i) = None)) \<and>
   (DesiredFocusTarget path = Some t \<longleftrightarrow>
      (\<exists>i < length (RoutingWalk path). CanReceiveInput (drop i path) \<and>
         GetDesiredFocusTarget (path ! i) = Some t \<and>
         (\<forall>j < i. CanReceiveInput (drop j path) \<longrightarrow> GetDesiredFocusTarget (path ! j) = None))) \<and>
   (DesiredFocusTarget path = None \<longleftrightarrow>
      (\<forall>i < length (RoutingWalk path).
         CanReceiveInput (drop i path) \<longrightarrow> GetDesiredFocusTarget (path ! i) = None))"
  unfolding DesiredInputConfig_def DesiredFocusTarget_def
  using ResolveDesired_Some_iff [of GetDesiredInputConfig path c]
    ResolveDesired_None_iff [of GetDesiredInputConfig path]
    ResolveDesired_Some_iff [of GetDesiredFocusTarget path t]
    ResolveDesired_None_iff [of GetDesiredFocusTarget path]
  by blast

text \<open>A button row inside a screen: the row has no input configuration, so the
  screen's is taken; the row's focus target comes first. Under an active popup the walk
  ends at the popup and finds no input configuration.\<close>

theorem desired_config_and_focus_first_answer_witness:
  "CanReceiveInput [Row_node, Screen_node] \<and> CanReceiveInput [Screen_node] \<and>
   GetDesiredInputConfig Row_node = None \<and> GetDesiredInputConfig Screen_node = Some 1 \<and>
   DesiredInputConfig [Row_node, Screen_node] = Some 1 \<and>
   GetDesiredFocusTarget Row_node = Some 33 \<and>
   DesiredFocusTarget [Row_node, Screen_node] = Some 33 \<and>
   GetDesiredInputConfig Popup_node = None \<and>
   length (RoutingWalk [Row_node, Popup_node, Screen_node]) = 2 \<and>
   DesiredInputConfig [Row_node, Popup_node, Screen_node] = None"
  using desired_config_and_focus_first_answer [of "[Row_node, Screen_node]" 1 33]
    desired_config_and_focus_first_answer [of "[Row_node, Popup_node, Screen_node]" 1 33]
  by (simp add: DesiredInputConfig_def DesiredFocusTarget_def CanReceiveInput_def
      Row_node_def Screen_node_def Popup_node_def UCommonActivatableWidget_defaults_def
      IsActivated_def IsModal_def)

subsection \<open>Claim C8: a modal node blocks its ancestors\<close>

lemma RoutingWalk_modal:
  "IsModal (Widget m) \<Longrightarrow> IsActivated (Widget m) \<Longrightarrow>
   RoutingWalk (below @ m # ancestors) = RoutingWalk (below @ [m])"
  by (induction below) auto

lemma ResolveDesired_modal:
  "IsModal (Widget m) \<Longrightarrow> IsActivated (Widget m) \<Longrightarrow>
   CanReceiveInput ancestors = CanReceiveInput ancestors' \<Longrightarrow>
   ResolveDesired ask (below @ m # ancestors) = ResolveDesired ask (below @ m # ancestors')"
  by (induction below) (auto simp: CanReceiveInput_def split: option.splits)

text \<open>
  Claim C8. While a modal node is active, routing from any node below it never reaches
  one of its ancestors: the walk is the walk of the path cut off after the modal node,
  so it has no more nodes than the modal node and those below it, and what is resolved
  for input and focus does not depend on the ancestors' answers. With the ancestors
  all active, as the parents of a popup remain, the result is the one for the path
  that ends at the modal node.
\<close>

theorem modal_blocks_routing_to_ancestors:
  "IsModal (Widget m) \<and> IsActivated (Widget m) \<longrightarrow>
     RoutingWalk (below @ m # ancestors) = RoutingWalk (below @ [m]) \<and>
     length (RoutingWalk (below @ m # ancestors)) \<le> length below + 1 \<and>
     (CanReceiveInput ancestors = CanReceiveInput ancestors' \<longrightarrow>
        ResolveDesired ask (below @ m # ancestors) =
        ResolveDesired ask (below @ m # ancestors')) \<and>
     (CanReceiveInput ancestors \<longrightarrow>
        ResolveDesired ask (below @ m # ancestors) = ResolveDesired ask (below @ [m]))"
proof (intro impI conjI)
  assume m: "IsModal (Widget m) \<and> IsActivated (Widget m)"
  then show walk: "RoutingWalk (below @ m # ancestors) = RoutingWalk (below @ [m])"
    using RoutingWalk_modal by blast
  show "length (RoutingWalk (below @ m # ancestors)) \<le> length below + 1"
    unfolding walk using RoutingWalk_length [of "below @ [m]"] by simp
  show "ResolveDesired ask (below @ m # ancestors) = ResolveDesired ask (below @ m # ancestors')"
    if "CanReceiveInput ancestors = CanReceiveInput ancestors'"
    using m that ResolveDesired_modal by blast
  show "ResolveDesired ask (below @ m # ancestors) = ResolveDesired ask (below @ [m])"
    if "CanReceiveInput ancestors"
    using m that ResolveDesired_modal [of m ancestors "[]" ask below]
    by (simp add: CanReceiveInput_def)
qed

text \<open>A button row in a modal popup on a screen: routing reaches the row and the popup,
  and the screen's input configuration and focus target are not taken.\<close>

theorem modal_blocks_routing_to_ancestors_witness:
  "IsModal (Widget Popup_node) \<and> IsActivated (Widget Popup_node) \<and>
   CanReceiveInput [Screen_node] \<and>
   RoutingWalk [Row_node, Popup_node, Screen_node] = [Row_node, Popup_node] \<and>
   GetDesiredInputConfig Screen_node = Some 1 \<and>
   DesiredInputConfig [Row_node, Popup_node, Screen_node] = None \<and>
   GetDesiredFocusTarget Screen_node = Some 11 \<and>
   DesiredFocusTarget [Popup_node, Screen_node] = None"
  using modal_blocks_routing_to_ancestors
      [of Popup_node "[Row_node]" "[Screen_node]" "[]" GetDesiredInputConfig]
    modal_blocks_routing_to_ancestors
      [of Popup_node "[]" "[Screen_node]" "[]" GetDesiredFocusTarget]
  by (simp add: DesiredInputConfig_def DesiredFocusTarget_def CanReceiveInput_def
      Row_node_def Screen_node_def Popup_node_def UCommonActivatableWidget_defaults_def
      IsActivated_def IsModal_def)

section \<open>Properties of the input subsystem\<close>

subsection \<open>Claim C3: input-method thrashing\<close>



lemma pruning_keeps_later_windows:
  assumes "Now \<le> Later"
  shows "filter (\<lambda>T. Later - T < (W :: real)) (Now # filter (\<lambda>T. Now - T < W) Times) =
     filter (\<lambda>T. Later - T < W) (Now # Times)"
proof -
  have "filter (\<lambda>T. Later - T < W) (filter (\<lambda>T. Now - T < W) Times) =
      filter (\<lambda>T. Later - T < W) Times"
    unfolding filter_filter using assms by (intro filter_cong) auto
  then show ?thesis by simp
qed



end
